theory Spec2Isabelle
  imports Main "HOL-Library.Word" "HOL-Library.Sublist"
begin

unbundle bit_operations_syntax

section \<open>Go values shared by the messaging core\<close>

text \<open>
  A Go map is a reference: the zero value of a map type is the nil map. Reading a nil map
  finds nothing, \<open>delete\<close> on it does nothing, and assigning to an entry of it is a
  run-time panic. Calling a method on a nil \<open>net.Conn\<close> or a nil function value panics too.
\<close>

datatype ('k, 'v) gomap = NilMap | GoMap "'k \<rightharpoonup> 'v"

datatype panic = NilMapAssign | NilDeref

fun map_get :: "('k, 'v) gomap \<Rightarrow> 'k \<Rightarrow> 'v option" where
  "map_get NilMap k = None"
| "map_get (GoMap f) k = f k"

fun map_delete :: "('k, 'v) gomap \<Rightarrow> 'k \<Rightarrow> ('k, 'v) gomap" where
  "map_delete NilMap k = NilMap"
| "map_delete (GoMap f) k = GoMap (f(k := None))"

fun map_set :: "('k, 'v) gomap \<Rightarrow> 'k \<Rightarrow> 'v \<Rightarrow> panic + ('k, 'v) gomap" where
  "map_set NilMap k v = Inl NilMapAssign"
| "map_set (GoMap f) k v = Inr (GoMap (f(k \<mapsto> v)))"

text \<open>
  The values an \<open>interface{}\<close> holds in this package: nil, the types the package itself
  boxes (strings, \<open>int32\<close> lock values, \<open>KeyValExpire\<close>, \<open>IOKeyVal\<close>), and any other
  value, kept opaque.
\<close>

datatype gval =
    VNil
  | VString string
  | VInt32 int
  | VKeyValExpire string gval int
  | VIOKeyVal string gval
  | VOpaque nat

text \<open>
  \<open>int\<close> and \<open>int64\<close> arithmetic wraps around in two's complement: times and
  durations are integers, and every arithmetic result is wrapped to 64 bits.
\<close>

definition wrap64 :: "int \<Rightarrow> int" where
  "wrap64 x = signed_take_bit 63 x"

type_synonym byte = "8 word"

definition PutUint32 :: "32 word \<Rightarrow> byte list" where
  "PutUint32 v = [ucast v, ucast (drop_bit 8 v), ucast (drop_bit 16 v), ucast (drop_bit 24 v)]"

definition Uint32 :: "byte list \<Rightarrow> 32 word" where
  "Uint32 b = ucast (b ! 0) OR push_bit 8 (ucast (b ! 1)) OR push_bit 16 (ucast (b ! 2))
                OR push_bit 24 (ucast (b ! 3))"

section \<open>Errors\<close>

text \<open>
  Modelled from the spec: the error kinds of package \<open>core\<close> and \<open>errs\<close>, whose constant
  declarations are not among the sources; they are taken as pairwise distinct codes.
\<close>

datatype errcode =
    ErrNetConnect | ErrNetTimeout | ErrNetTemporary | ErrNetUnknown
  | ErrNetWriteFail | ErrNetReadFail
  | ErrMarshalFail | CodeUnmarshalFail | ErrCompressFail | ErrDeCompressFail
  | ErrRunTime | ErrTimeout

datatype errno = ECONNRESET | EPIPE | EOTHER

text \<open>
  A Go \<open>error\<close> coming from the transport, as \<open>getErrType\<close> observes it: what
  \<open>errors.As\<close> finds in its chain (a \<open>*net.OpError\<close> with its \<open>Timeout()\<close>,
  \<open>Temporary()\<close> and \<open>Op\<close>; a \<open>*syscall.Errno\<close>) and what \<open>errors.Is\<close> answers for
  \<open>os.ErrDeadlineExceeded\<close>, \<open>io.EOF\<close> and \<open>io.ErrClosedPipe\<close>.
\<close>

datatype goerr = GoErr
  (asOpError: "(bool \<times> bool \<times> string) option")
  (asErrnoPtr: "errno option")
  (isDeadlineExceeded: bool)
  (isEOF: bool)
  (isErrClosedPipe: bool)

text \<open>
  \<open>callErr\<close> is declared a \<open>*syscall.Errno\<close>, so \<open>errors.As\<close> looks for a pointer to an
  \<open>Errno\<close> (\<open>asErrnoPtr\<close> is the number it points to, when the chain holds one), and
  \<open>errors.Is(callErr, target)\<close> is asked of that pointer against an \<open>Errno\<close> value: the
  two are never equal, the \<open>Is\<close> method of \<open>Errno\<close> answers for the classes of package
  \<open>os\<close> only, and there is nothing to unwrap. The answer is no for every target the
  function asks about.
\<close>

definition errors_Is_ptr :: "errno \<Rightarrow> errno \<Rightarrow> bool" where
  "errors_Is_ptr callErr target = False"

datatype cause = Net goerr | Lib string | Msg string

datatype errs = Error (Code: "errcode option") (Cause: cause)

fun getErrType :: "goerr option \<Rightarrow> errcode option \<times> string" where
  "getErrType None = (None, '''')"
| "getErrType (Some err) =
     (case asOpError err of
        Some (timeout, temporary, op) \<Rightarrow>
          if timeout then (Some ErrNetTimeout, ''op_timeout'')
          else if temporary then (Some ErrNetTemporary, ''op_temporary'')
          else if op = ''dial'' then (Some ErrNetConnect, ''op_conn_dial'')
          else (Some ErrNetUnknown, ''op_err'')
      | None \<Rightarrow>
         (case asErrnoPtr err of
            Some callErr \<Rightarrow>
              if errors_Is_ptr callErr ECONNRESET then (Some ErrNetConnect, ''call_reset'')
              else if errors_Is_ptr callErr EPIPE then (Some ErrNetConnect, ''call_pipe'')
              else (Some ErrNetUnknown, ''call_err'')
          | None \<Rightarrow>
              if isDeadlineExceeded err then (Some ErrNetTimeout, ''dead_exceeded'')
              else if isEOF err then (Some ErrNetConnect, ''io_eof'')
              else if isErrClosedPipe err then (Some ErrNetConnect, ''pipe_closed'')
              else (Some ErrNetUnknown, ''net_fail'')))"

section \<open>The environment: sockets, clock, library calls\<close>

text \<open>
  What a call does to the outside is written to a trace. What the outside answers is read
  from oracles: the result of the \<open>n\<close>-th \<open>Conn.Write\<close>, of the \<open>n\<close>-th \<open>Conn.Read\<close>
  and of the \<open>n\<close>-th \<open>btime.TimeMS()\<close>, each with the index of the next answer.
\<close>

datatype event =
    EvLock | EvUnlock
  | EvSockWrite nat "byte list" "goerr option"
  | EvSockRead nat nat "goerr + byte list"
  | EvSockClose nat
  | EvSleep nat
  | EvDoConnect
  | EvReInitConn
  | EvLog string
  | EvCall string nat string gval
  | EvMakeChan nat
  | EvSelect nat int
  | EvCloseChan nat

record world =
  trace :: "event list"
  wout :: "nat \<Rightarrow> goerr option"
  wix :: nat
  rout :: "nat \<Rightarrow> goerr + byte list"
  rix :: nat
  clock :: "nat \<Rightarrow> int"
  tix :: nat
  chans :: nat

definition emit :: "event list \<Rightarrow> world \<Rightarrow> world" where
  "emit es w = w\<lparr>trace := trace w @ es\<rparr>"

definition TimeMS :: "world \<Rightarrow> int \<times> world" where
  "TimeMS w = (clock w (tix w), w\<lparr>tix := Suc (tix w)\<rparr>)"

text \<open>
  A call returns a value, panics, or does not return: it blocks on a mutex that is held,
  or its retries outlast the fuel it was given.
\<close>

datatype 'a res = Ret 'a | Panics panic | Stuck

text \<open>
  The third-party library calls, taken as parameters: \<open>sonic.Marshal\<close>,
  \<open>utils.Unmarshal\<close>, the zlib writer and reader, and \<open>mapstructure.Decode\<close> into an
  \<open>int32\<close> (\<open>None\<close> when it leaves the target untouched: an error, or a nil input).
\<close>

record IOMsg =
  Action :: string
  Data :: gval

record libs =
  marshal :: "IOMsg \<Rightarrow> string + byte list"
  unmarshal :: "byte list \<Rightarrow> string + IOMsg"
  zlib_write :: "byte list \<Rightarrow> string + byte list"
  zlib_read :: "byte list \<Rightarrow> string + byte list"
  decode_int32 :: "gval \<Rightarrow> int option"

definition compress :: "libs \<Rightarrow> byte list \<Rightarrow> errs + byte list" where
  "compress L data =
     (case zlib_write L data of
        Inl e \<Rightarrow> Inl (Error (Some ErrCompressFail) (Lib e))
      | Inr b \<Rightarrow> Inr b)"

definition deCompress :: "libs \<Rightarrow> byte list \<Rightarrow> errs + byte list" where
  "deCompress L compressed =
     (case zlib_read L compressed of
        Inl e \<Rightarrow> Inl (Error (Some ErrDeCompressFail) (Lib e))
      | Inr b \<Rightarrow> Inr b)"

section \<open>The connection\<close>

text \<open>
  \<open>Conn\<close> is the socket (\<open>None\<close> for nil), \<open>Listens\<close> maps a prefix to the identity of its
  callback, \<open>m\<close> tells whether the mutex is held. The two function-valued fields of the
  struct, which take or capture the connection itself, are kept apart in \<open>hooks\<close>:
  \<open>None\<close> is the nil function, \<open>Some f\<close> a hook that changes the connection by \<open>f\<close>.
\<close>

record BanConn =
  Conn :: "nat option"
  Tags :: "(string, bool) gomap"
  Remote :: string
  Listens :: "(string, nat) gomap"
  RefreshMS :: int
  Ready :: bool
  m :: bool

record hooks =
  DoConnect :: "(BanConn \<Rightarrow> BanConn) option"
  ReInitConn :: "(BanConn \<Rightarrow> BanConn) option"

definition IsClosed :: "BanConn \<Rightarrow> bool" where
  "IsClosed c = (Conn c = None \<or> \<not> Ready c)"

definition HasTag :: "BanConn \<Rightarrow> string \<Rightarrow> bool" where
  "HasTag c tag = (map_get (Tags c) tag \<noteq> None)"

text \<open>
  The part of \<open>connect\<close> after the freshness test: close and forget the socket, sleep,
  call the reconnect hook, stamp the time, and mark the connection ready when the hook
  left a socket.
\<close>

definition reconnect :: "hooks \<Rightarrow> BanConn \<times> world \<Rightarrow> unit res \<times> BanConn \<times> world" where
  "reconnect H cw =
     (let (c, w) = cw;
          c1 = c\<lparr>Ready := False\<rparr>;
          (c2, w2) = (case Conn c1 of
                        Some sk \<Rightarrow> (c1\<lparr>Conn := None\<rparr>, emit [EvSockClose sk] w)
                      | None \<Rightarrow> (c1, w));
          w3 = emit [EvSleep 3] w2
      in case DoConnect H of
           None \<Rightarrow> (Panics NilDeref, c2, w3)
         | Some dial \<Rightarrow>
             (let c4 = dial c2;
                  w4 = emit [EvDoConnect] w3;
                  (now, w5) = TimeMS w4;
                  c5 = c4\<lparr>RefreshMS := now\<rparr>
              in if Conn c5 \<noteq> None then
                   (case ReInitConn H of
                      Some reinit \<Rightarrow> (Ret (), (reinit c5)\<lparr>Ready := True\<rparr>, emit [EvReInitConn] w5)
                    | None \<Rightarrow> (Ret (), c5\<lparr>Ready := True\<rparr>, w5))
                 else (Ret (), c5, w5)))"

text \<open>
  \<open>connect(lock)\<close>. With \<open>lock\<close> it takes the mutex, which blocks when the mutex is
  held, and releases it on every way out; the clock is read only when \<open>Ready\<close> holds.
\<close>

definition connect :: "hooks \<Rightarrow> bool \<Rightarrow> BanConn \<times> world \<Rightarrow> unit res \<times> BanConn \<times> world" where
  "connect H lock cw =
     (let (c, w) = cw in
      if lock then
        (if m c then (Stuck, c, w)
         else
           (let c1 = c\<lparr>m := True\<rparr>; w1 = emit [EvLock] w in
            if Ready c1 then
              (let (now, w2) = TimeMS w1 in
               if wrap64 (now - RefreshMS c1) < 2000
               then (Ret (), c1\<lparr>m := False\<rparr>, emit [EvUnlock] w2)
               else (let (r, c3, w3) = reconnect H (c1, w2)
                     in (r, c3\<lparr>m := False\<rparr>, emit [EvUnlock] w3)))
            else (let (r, c3, w3) = reconnect H (c1, w1)
                  in (r, c3\<lparr>m := False\<rparr>, emit [EvUnlock] w3))))
      else reconnect H (c, w))"

subsection \<open>Writing and reading frames\<close>

definition sock_write :: "nat \<Rightarrow> byte list \<Rightarrow> world \<Rightarrow> goerr option \<times> world" where
  "sock_write sk b w =
     (let r = wout w (wix w) in (r, emit [EvSockWrite sk b r] (w\<lparr>wix := Suc (wix w)\<rparr>)))"

definition sock_read :: "nat \<Rightarrow> nat \<Rightarrow> world \<Rightarrow> (goerr + byte list) \<times> world" where
  "sock_read sk n w =
     (let r = rout w (rix w) in (r, emit [EvSockRead sk n r] (w\<lparr>rix := Suc (rix w)\<rparr>)))"

text \<open>A buffer of \<open>n\<close> zero bytes after one \<open>Read\<close> has stored the bytes \<open>bs\<close> in it.\<close>

definition fill :: "nat \<Rightarrow> byte list \<Rightarrow> byte list" where
  "fill n bs = take n bs @ replicate (n - length bs) 0"

text \<open>
  \<open>Write\<close> and \<open>Read\<close> call themselves after a reconnection. Their bodies are written
  once, up to that call (\<open>Retry\<close>); the functions proper repeat the body, one unit of
  fuel for each retry.
\<close>

datatype 'a step = Done 'a | Retry

definition Write_body ::
  "hooks \<Rightarrow> byte list \<Rightarrow> BanConn \<times> world \<Rightarrow> errs option step res \<times> BanConn \<times> world" where
  "Write_body H data cw =
     (let (c, w) = cw;
          dataLen = (of_nat (length data) :: 32 word);
          lenBt = PutUint32 dataLen
      in case Conn c of
           None \<Rightarrow> (Panics NilDeref, c, w)
         | Some sk \<Rightarrow>
             (let (err1, w1) = sock_write sk lenBt w in
              case err1 of
                Some e \<Rightarrow>
                  (let c1 = c\<lparr>Ready := False\<rparr>;
                       (errCode, errType) = getErrType (Some e)
                   in if DoConnect H \<noteq> None \<and> errCode = Some ErrNetConnect then
                        (let w2 = emit [EvLog ''write fail, wait 3s and retry''] w1;
                             (r, c3, w3) = connect H False (c1, w2)
                         in case r of
                              Ret u \<Rightarrow> (Ret Retry, c3, w3)
                            | Panics p \<Rightarrow> (Panics p, c3, w3)
                            | Stuck \<Rightarrow> (Stuck, c3, w3))
                      else (Ret (Done (Some (Error errCode (Net e)))), c1, w1))
              | None \<Rightarrow>
                  (let (err2, w2) = sock_write sk data w1 in
                   case err2 of
                     Some e \<Rightarrow>
                       (Ret (Done (Some (Error (Some ErrNetWriteFail) (Net e)))),
                        c\<lparr>Ready := False\<rparr>, w2)
                   | None \<Rightarrow> (Ret (Done None), c, w2))))"

fun Write ::
  "hooks \<Rightarrow> nat \<Rightarrow> byte list \<Rightarrow> BanConn \<times> world \<Rightarrow> errs option res \<times> BanConn \<times> world" where
  "Write H 0 data cw =
     (case Write_body H data cw of
        (Ret (Done r), c, w) \<Rightarrow> (Ret r, c, w)
      | (Ret Retry, c, w) \<Rightarrow> (Stuck, c, w)
      | (Panics p, c, w) \<Rightarrow> (Panics p, c, w)
      | (Stuck, c, w) \<Rightarrow> (Stuck, c, w))"
| "Write H (Suc fuel) data cw =
     (case Write_body H data cw of
        (Ret (Done r), c, w) \<Rightarrow> (Ret r, c, w)
      | (Ret Retry, c, w) \<Rightarrow> Write H fuel data (c, w)
      | (Panics p, c, w) \<Rightarrow> (Panics p, c, w)
      | (Stuck, c, w) \<Rightarrow> (Stuck, c, w))"

definition Read_body ::
  "hooks \<Rightarrow> BanConn \<times> world \<Rightarrow> (errs + byte list) step res \<times> BanConn \<times> world" where
  "Read_body H cw =
     (let (c, w) = cw in
      case Conn c of
        None \<Rightarrow> (Panics NilDeref, c, w)
      | Some sk \<Rightarrow>
          (let (r1, w1) = sock_read sk 4 w in
           case r1 of
             Inl e \<Rightarrow>
               (let (errCode, errType) = getErrType (Some e)
                in if DoConnect H \<noteq> None \<and> errCode = Some ErrNetConnect then
                     (let w2 = emit [EvLog ''read fail, wait 3s and retry''] w1;
                          (r, c3, w3) = connect H True (c, w2)
                      in case r of
                           Ret u \<Rightarrow> (Ret Retry, c3, w3)
                         | Panics p \<Rightarrow> (Panics p, c3, w3)
                         | Stuck \<Rightarrow> (Stuck, c3, w3))
                   else (Ret (Done (Inl (Error errCode (Net e)))), c, w1))
           | Inr bs \<Rightarrow>
               (let lenBuf = fill 4 bs;
                    dataLen = unat (Uint32 lenBuf);
                    (r2, w2) = sock_read sk dataLen w1
                in case r2 of
                     Inl e \<Rightarrow> (Ret (Done (Inl (Error (Some ErrNetReadFail) (Net e)))), c, w2)
                   | Inr bs2 \<Rightarrow> (Ret (Done (Inr (fill dataLen bs2))), c, w2))))"

fun Read ::
  "hooks \<Rightarrow> nat \<Rightarrow> BanConn \<times> world \<Rightarrow> (errs + byte list) res \<times> BanConn \<times> world" where
  "Read H 0 cw =
     (case Read_body H cw of
        (Ret (Done r), c, w) \<Rightarrow> (Ret r, c, w)
      | (Ret Retry, c, w) \<Rightarrow> (Stuck, c, w)
      | (Panics p, c, w) \<Rightarrow> (Panics p, c, w)
      | (Stuck, c, w) \<Rightarrow> (Stuck, c, w))"
| "Read H (Suc fuel) cw =
     (case Read_body H cw of
        (Ret (Done r), c, w) \<Rightarrow> (Ret r, c, w)
      | (Ret Retry, c, w) \<Rightarrow> Read H fuel (c, w)
      | (Panics p, c, w) \<Rightarrow> (Panics p, c, w)
      | (Stuck, c, w) \<Rightarrow> (Stuck, c, w))"

text \<open>
  \<open>WriteMsg\<close> encodes, takes the mutex, writes the frame and, by its \<open>defer\<close>, releases
  the mutex whatever \<open>Write\<close> did.
\<close>

definition WriteMsg ::
  "libs \<Rightarrow> hooks \<Rightarrow> nat \<Rightarrow> IOMsg \<Rightarrow> BanConn \<times> world \<Rightarrow> errs option res \<times> BanConn \<times> world" where
  "WriteMsg L H fuel msg cw =
     (let (c, w) = cw in
      case marshal L msg of
        Inl e \<Rightarrow> (Ret (Some (Error (Some ErrMarshalFail) (Lib e))), c, w)
      | Inr raw \<Rightarrow>
          (case compress L raw of
             Inl err \<Rightarrow> (Ret (Some err), c, w)
           | Inr compressed \<Rightarrow>
               if m c then (Stuck, c, w)
               else
                 (let (r, c2, w2) = Write H fuel compressed (c\<lparr>m := True\<rparr>, emit [EvLock] w)
                  in case r of
                       Stuck \<Rightarrow> (Stuck, c2, w2)
                     | _ \<Rightarrow> (r, c2\<lparr>m := False\<rparr>, emit [EvUnlock] w2))))"

definition ReadMsg ::
  "libs \<Rightarrow> hooks \<Rightarrow> nat \<Rightarrow> BanConn \<times> world \<Rightarrow> (errs + IOMsg) res \<times> BanConn \<times> world" where
  "ReadMsg L H fuel cw =
     (case Read H fuel cw of
        (Ret (Inl err), c, w) \<Rightarrow> (Ret (Inl err), c, w)
      | (Ret (Inr compressed), c, w) \<Rightarrow>
          (case deCompress L compressed of
             Inl err \<Rightarrow> (Ret (Inl err), c, w)
           | Inr data \<Rightarrow>
               (case unmarshal L data of
                  Inl e \<Rightarrow> (Ret (Inl (Error (Some CodeUnmarshalFail) (Lib e))), c, w)
                | Inr msg \<Rightarrow> (Ret (Inr msg), c, w)))
      | (Panics p, c, w) \<Rightarrow> (Panics p, c, w)
      | (Stuck, c, w) \<Rightarrow> (Stuck, c, w))"

subsection \<open>The read loop and handler dispatch\<close>

text \<open>
  \<open>Listens\<close> is a Go map, and \<open>range\<close> visits the keys of a map in an order the language
  leaves open. The order one loop takes is a parameter: a list \<open>ord\<close> holding each key of
  the map once. The loop stops at the first key that is a prefix of the action.
\<close>

fun entries :: "('k, 'v) gomap \<Rightarrow> 'k \<rightharpoonup> 'v" where
  "entries NilMap = Map.empty"
| "entries (GoMap f) = f"

definition range_order :: "('k, 'v) gomap \<Rightarrow> 'k list \<Rightarrow> bool" where
  "range_order mp ord = (distinct ord \<and> set ord = dom (entries mp))"

fun range_Listens :: "(string \<rightharpoonup> nat) \<Rightarrow> string list \<Rightarrow> string \<Rightarrow> (string \<times> nat) option" where
  "range_Listens ls [] action = None"
| "range_Listens ls (pfx # rest) action =
     (case ls pfx of
        None \<Rightarrow> range_Listens ls rest action
      | Some handle \<Rightarrow>
          if prefix pfx action then Some (pfx, handle)
          else range_Listens ls rest action)"

text \<open>The body of the loop of \<open>RunForever\<close> once a message is read.\<close>

definition dispatch :: "BanConn \<Rightarrow> string list \<Rightarrow> IOMsg \<Rightarrow> world \<Rightarrow> world" where
  "dispatch c ord msg w =
     (case range_Listens (entries (Listens c)) ord (Action msg) of
        Some (pfx, handle) \<Rightarrow> emit [EvCall pfx handle (Action msg) (Data msg)] w
      | None \<Rightarrow> emit [EvLog ''unhandle msg''] w)"

text \<open>
  The loop runs until \<open>ReadMsg\<close> returns an error. It is given the iteration order of
  each dispatch to come, and is stuck when a further message arrives after the last.
\<close>

fun RunForever_loop ::
  "libs \<Rightarrow> hooks \<Rightarrow> nat \<Rightarrow> string list list \<Rightarrow> BanConn \<times> world \<Rightarrow> errs res \<times> BanConn \<times> world" where
  "RunForever_loop L H fuel [] cw =
     (case ReadMsg L H fuel cw of
        (Ret (Inl err), c, w) \<Rightarrow> (Ret err, c, w)
      | (Ret (Inr msg), c, w) \<Rightarrow> (Stuck, c, w)
      | (Panics p, c, w) \<Rightarrow> (Panics p, c, w)
      | (Stuck, c, w) \<Rightarrow> (Stuck, c, w))"
| "RunForever_loop L H fuel (ord # ords) cw =
     (case ReadMsg L H fuel cw of
        (Ret (Inl err), c, w) \<Rightarrow> (Ret err, c, w)
      | (Ret (Inr msg), c, w) \<Rightarrow> RunForever_loop L H fuel ords (c, dispatch c ord msg w)
      | (Panics p, c, w) \<Rightarrow> (Panics p, c, w)
      | (Stuck, c, w) \<Rightarrow> (Stuck, c, w))"

text \<open>
  \<open>defer c.Conn.Close()\<close> takes the socket when the function is entered and closes that
  socket when the function is left.
\<close>

definition RunForever ::
  "libs \<Rightarrow> hooks \<Rightarrow> nat \<Rightarrow> string list list \<Rightarrow> BanConn \<times> world \<Rightarrow> errs res \<times> BanConn \<times> world" where
  "RunForever L H fuel ords cw =
     (case Conn (fst cw) of
        None \<Rightarrow> (Panics NilDeref, cw)
      | Some sk \<Rightarrow>
          (case RunForever_loop L H fuel ords cw of
             (Stuck, c, w) \<Rightarrow> (Stuck, c, w)
           | (r, c, w) \<Rightarrow> (r, c, emit [EvSockClose sk] w)))"

section \<open>The server\<close>

text \<open>
  \<open>Conns\<close> holds references to connections: the roster is a list of connection
  identities, and the state of each connection is looked up in a heap.
\<close>

record KeyValExpire =
  Key :: string
  Val :: gval
  ExpireSecs :: int

record ServerIO =
  Addr :: string
  Name :: string
  Conns :: "nat list"
  Data :: "(string, gval) gomap"
  DataExp :: "(string, int) gomap"

text \<open>
  \<open>NewBanServer\<close> assigns \<open>Addr\<close>, \<open>Name\<close> and \<open>Data\<close>; every other field keeps the
  zero value of its type, which for \<open>DataExp\<close> is the nil map.
\<close>

definition NewBanServer :: "string \<Rightarrow> string \<Rightarrow> ServerIO" where
  "NewBanServer addr name =
     \<lparr>Addr = addr, Name = name, Conns = [], Data = GoMap Map.empty, DataExp = NilMap\<rparr>"

text \<open>
  \<open>SetVal\<close> and \<open>GetVal\<close>; \<open>now\<close> is what \<open>btime.TimeMS()\<close> answers where they call it.
\<close>

definition SetVal :: "int \<Rightarrow> KeyValExpire \<Rightarrow> ServerIO \<Rightarrow> panic + ServerIO" where
  "SetVal now args s =
     (if Val args = VNil then Inr (s\<lparr>Data := map_delete (Data s) (Key args)\<rparr>)
      else case map_set (Data s) (Key args) (Val args) of
             Inl p \<Rightarrow> Inl p
           | Inr d \<Rightarrow>
               if ExpireSecs args > 0 then
                 (case map_set (DataExp s) (Key args)
                         (wrap64 (now + wrap64 (ExpireSecs args * 1000))) of
                    Inl p \<Rightarrow> Inl p
                  | Inr e \<Rightarrow> Inr (s\<lparr>Data := d, DataExp := e\<rparr>))
               else Inr (s\<lparr>Data := d\<rparr>))"

definition GetVal :: "int \<Rightarrow> string \<Rightarrow> ServerIO \<Rightarrow> gval \<times> ServerIO" where
  "GetVal now key s =
     (case map_get (Data s) key of
        None \<Rightarrow> (VNil, s)
      | Some val \<Rightarrow>
          (case map_get (DataExp s) key of
             Some exp \<Rightarrow>
               if now \<ge> exp
               then (VNil, s\<lparr>Data := map_delete (Data s) key,
                              DataExp := map_delete (DataExp s) key\<rparr>)
               else (val, s)
           | None \<Rightarrow> (val, s)))"

text \<open>
  The first loop of \<open>Broadcast\<close>: \<open>allConns\<close> collects the connections that are not
  closed, \<open>curConns\<close> those of them that hold the tag.
\<close>

fun Broadcast_scan ::
  "(nat \<Rightarrow> BanConn) \<Rightarrow> string \<Rightarrow> nat list \<Rightarrow> nat list \<times> nat list \<Rightarrow> nat list \<times> nat list" where
  "Broadcast_scan heap action [] acc = acc"
| "Broadcast_scan heap action (conn # rest) (allConns, curConns) =
     (if IsClosed (heap conn) then Broadcast_scan heap action rest (allConns, curConns)
      else Broadcast_scan heap action rest
             (allConns @ [conn],
              if HasTag (heap conn) action then curConns @ [conn] else curConns))"

text \<open>
  \<open>Broadcast\<close> returns its error, the tasks it starts with \<open>go\<close> (the connection and the
  bytes handed to its \<open>Write\<close>) and the server with the new roster.
\<close>

definition Broadcast ::
  "libs \<Rightarrow> (nat \<Rightarrow> BanConn) \<Rightarrow> IOMsg \<Rightarrow> ServerIO \<Rightarrow> errs option \<times> (nat \<times> byte list) list \<times> ServerIO" where
  "Broadcast L heap msg s =
     (let (allConns, curConns) = Broadcast_scan heap (Action msg) (Conns s) ([], []);
          s1 = s\<lparr>Conns := allConns\<rparr>
      in if length curConns = 0 then (None, [], s1)
         else case marshal L msg of
                Inl e \<Rightarrow> (Some (Error (Some ErrMarshalFail) (Lib e)), [], s1)
              | Inr raw \<Rightarrow>
                  (case compress L raw of
                     Inl err \<Rightarrow> (Some err, [], s1)
                   | Inr compressed \<Rightarrow> (None, map (\<lambda>conn. (conn, compressed)) curConns, s1)))"

text \<open>The task started for one recipient: \<open>c.Write(compressed)\<close>, and a log line on error.\<close>

definition Broadcast_go ::
  "hooks \<Rightarrow> nat \<Rightarrow> byte list \<Rightarrow> BanConn \<times> world \<Rightarrow> unit res \<times> BanConn \<times> world" where
  "Broadcast_go H fuel compressed cw =
     (case Write H fuel compressed cw of
        (Ret (Some err), c, w) \<Rightarrow> (Ret (), c, emit [EvLog ''broadcast fail''] w)
      | (Ret None, c, w) \<Rightarrow> (Ret (), c, w)
      | (Panics p, c, w) \<Rightarrow> (Panics p, c, w)
      | (Stuck, c, w) \<Rightarrow> (Stuck, c, w))"

section \<open>The client\<close>

text \<open>
  \<open>waits\<close> maps a key to the channel its caller waits on; a channel is known by its
  number, and \<open>make\<close> takes the next one. What the \<open>select\<close> of \<open>GetVal\<close> finds is
  given from outside: a value received on the channel, or the timer.
\<close>

record ClientIO =
  conn :: BanConn
  Addr :: string
  waits :: "(string, nat) gomap"

datatype selected = Received gval | TimedOut

definition readTimeout :: int where
  "readTimeout = 120"

definition ClientIO_GetVal ::
  "libs \<Rightarrow> hooks \<Rightarrow> nat \<Rightarrow> selected \<Rightarrow> string \<Rightarrow> int \<Rightarrow> ClientIO \<times> world
     \<Rightarrow> (gval \<times> errs option) res \<times> ClientIO \<times> world" where
  "ClientIO_GetVal L H fuel sel key timeout clw =
     (let (cl, w) = clw;
          (r, c1, w1) = WriteMsg L H fuel \<lparr>Action = ''onGetVal'', Data = VString key\<rparr> (conn cl, w);
          cl1 = cl\<lparr>conn := c1\<rparr>
      in case r of
           Panics p \<Rightarrow> (Panics p, cl1, w1)
         | Stuck \<Rightarrow> (Stuck, cl1, w1)
         | Ret (Some err) \<Rightarrow> (Ret (VNil, Some err), cl1, w1)
         | Ret None \<Rightarrow>
             (let timeout1 = (if timeout = 0 then readTimeout else timeout);
                  out = chans w1;
                  w2 = emit [EvMakeChan out] (w1\<lparr>chans := Suc (chans w1)\<rparr>)
              in case map_set (waits cl1) key out of
                   Inl p \<Rightarrow> (Panics p, cl1, w2)
                 | Inr ws \<Rightarrow>
                     (let cl2 = cl1\<lparr>waits := ws\<rparr>;
                          w3 = emit [EvSelect out timeout1] w2
                      in case sel of
                           Received v \<Rightarrow> (Ret (v, None), cl2, w3)
                         | TimedOut \<Rightarrow>
                             (Ret (VNil, None),
                              cl2\<lparr>waits := map_delete (waits cl2) key\<rparr>,
                              emit [EvCloseChan out] w3))))"

definition ClientIO_SetVal ::
  "libs \<Rightarrow> hooks \<Rightarrow> nat \<Rightarrow> KeyValExpire \<Rightarrow> ClientIO \<times> world
     \<Rightarrow> errs option res \<times> ClientIO \<times> world" where
  "ClientIO_SetVal L H fuel args clw =
     (let (cl, w) = clw;
          (r, c1, w1) = WriteMsg L H fuel
             \<lparr>Action = ''onSetVal'',
              Data = VKeyValExpire (Key args) (Val args) (ExpireSecs args)\<rparr> (conn cl, w)
      in (r, cl\<lparr>conn := c1\<rparr>, w1))"

section \<open>The process-wide server and client, and the lock built on them\<close>

record globals =
  banServer :: "ServerIO option"
  banClient :: "ClientIO option"

definition GetServerData ::
  "libs \<Rightarrow> hooks \<Rightarrow> nat \<Rightarrow> int \<Rightarrow> selected \<Rightarrow> string \<Rightarrow> globals \<times> world
     \<Rightarrow> (gval \<times> errs option) res \<times> globals \<times> world" where
  "GetServerData L H fuel now sel key gw =
     (let (g, w) = gw in
      case banServer g of
        Some s \<Rightarrow>
          (let (data, s1) = GetVal now key s
           in (Ret (data, None), g\<lparr>banServer := Some s1\<rparr>, w))
      | None \<Rightarrow>
          (case banClient g of
             None \<Rightarrow> (Ret (VNil, Some (Error (Some ErrRunTime) (Msg ''banClient not load''))), g, w)
           | Some cl \<Rightarrow>
               (let (r, cl1, w1) = ClientIO_GetVal L H fuel sel key 0 (cl, w)
                in (r, g\<lparr>banClient := Some cl1\<rparr>, w1))))"

definition SetServerData ::
  "libs \<Rightarrow> hooks \<Rightarrow> nat \<Rightarrow> int \<Rightarrow> KeyValExpire \<Rightarrow> globals \<times> world
     \<Rightarrow> errs option res \<times> globals \<times> world" where
  "SetServerData L H fuel now args gw =
     (let (g, w) = gw in
      case banServer g of
        Some s \<Rightarrow>
          (case SetVal now args s of
             Inl p \<Rightarrow> (Panics p, g, w)
           | Inr s1 \<Rightarrow> (Ret None, g\<lparr>banServer := Some s1\<rparr>, w))
      | None \<Rightarrow>
          (case banClient g of
             None \<Rightarrow> (Ret (Some (Error (Some ErrRunTime) (Msg ''banClient not load''))), g, w)
           | Some cl \<Rightarrow>
               (let (r, cl1, w1) = ClientIO_SetVal L H fuel args (cl, w)
                in (r, g\<lparr>banClient := Some cl1\<rparr>, w1))))"

text \<open>
  \<open>DelNetLock\<close>: \<open>valInt\<close> starts at 0 and is what \<open>mapstructure.Decode\<close> puts there,
  its error being dropped.
\<close>

definition valInt_of :: "libs \<Rightarrow> gval \<Rightarrow> int" where
  "valInt_of L val = (case decode_int32 L val of Some n \<Rightarrow> n | None \<Rightarrow> 0)"

definition DelNetLock ::
  "libs \<Rightarrow> hooks \<Rightarrow> nat \<Rightarrow> int \<Rightarrow> selected \<Rightarrow> string \<Rightarrow> int \<Rightarrow> globals \<times> world
     \<Rightarrow> errs option res \<times> globals \<times> world" where
  "DelNetLock L H fuel now sel key lockVal gw =
     (let lockKey = ''lock_'' @ key;
          (r, g1, w1) = GetServerData L H fuel now sel lockKey gw
      in case r of
           Panics p \<Rightarrow> (Panics p, g1, w1)
         | Stuck \<Rightarrow> (Stuck, g1, w1)
         | Ret (val, Some err) \<Rightarrow> (Ret (Some err), g1, w1)
         | Ret (val, None) \<Rightarrow>
             (let valInt = valInt_of L val
              in if valInt = lockVal then
                   SetServerData L H fuel now \<lparr>Key = lockKey, Val = VNil, ExpireSecs = 0\<rparr> (g1, w1)
                 else (Ret None, g1, emit [EvLog ''del lock fail''] w1)))"

section \<open>Properties in the words of the specification\<close>

text \<open>
  From the specification, not from the code: among the handlers in the order of their
  registration, the one whose prefix is the longest prefix of the action, the first
  registered winning among equally long ones.
\<close>

fun spec_longest :: "(string \<times> nat) list \<Rightarrow> string \<Rightarrow> (string \<times> nat) option" where
  "spec_longest [] action = None"
| "spec_longest ((pfx, handle) # rest) action =
     (case spec_longest rest action of
        None \<Rightarrow> if prefix pfx action then Some (pfx, handle) else None
      | Some (q, k) \<Rightarrow>
          if prefix pfx action \<and> length q \<le> length pfx then Some (pfx, handle)
          else Some (q, k))"

text \<open>
  From the specification: every write to the socket in a trace happens while the
  connection's mutex is held; \<open>held\<close> tells whether it is held where the trace starts.
\<close>

fun held_writes :: "bool \<Rightarrow> event list \<Rightarrow> bool" where
  "held_writes held [] = True"
| "held_writes held (EvLock # es) = held_writes True es"
| "held_writes held (EvUnlock # es) = held_writes False es"
| "held_writes held (EvSockWrite sk b r # es) = (held \<and> held_writes held es)"
| "held_writes held (e # es) = held_writes held es"

text \<open>A stretch of a trace in which the mutex is neither taken nor released.\<close>

definition mutex_free :: "event list \<Rightarrow> bool" where
  "mutex_free es = (EvLock \<notin> set es \<and> EvUnlock \<notin> set es)"

section \<open>Example values\<close>

text \<open>
  Two transport errors: an end of file, which \<open>getErrType\<close> takes for a lost connection,
  and an error it knows nothing about.
\<close>

definition err_eof :: goerr where
  "err_eof = GoErr None None False True False"

definition err_other :: goerr where
  "err_other = GoErr None None False False False"

text \<open>
  Stand-ins for the libraries, to run the definitions on examples: a message marshals
  unless its data is an opaque value, compression changes nothing, and an \<open>int32\<close>
  decodes to itself.
\<close>

definition libs0 :: libs where
  "libs0 =
     \<lparr>marshal = (\<lambda>msg. case IOMsg.Data msg of
                          VOpaque n \<Rightarrow> Inl ''unsupported type''
                        | _ \<Rightarrow> Inr [123, 125]),
      unmarshal = (\<lambda>b. Inl ''invalid''),
      zlib_write = (\<lambda>b. Inr b),
      zlib_read = (\<lambda>b. Inr b),
      decode_int32 = (\<lambda>v. case v of VInt32 n \<Rightarrow> Some n | _ \<Rightarrow> None)\<rparr>"

definition hooks_none :: hooks where
  "hooks_none = \<lparr>DoConnect = None, ReInitConn = None\<rparr>"

definition hooks_dial :: hooks where
  "hooks_dial = \<lparr>DoConnect = Some (\<lambda>c. c\<lparr>Conn := Some 8\<rparr>), ReInitConn = None\<rparr>"

definition regs0 :: "(string \<times> nat) list" where
  "regs0 = [(''on'', 1), (''onGet'', 2)]"

definition conn7 :: BanConn where
  "conn7 = \<lparr>Conn = Some 7, Tags = GoMap [''px'' \<mapsto> True], Remote = ''peer'',
            Listens = GoMap (map_of regs0), RefreshMS = 1000, Ready = True, m = False\<rparr>"

text \<open>
  A world where every write succeeds, every read meets the end of file and the clock
  stands at 1000; one where the first write fails, and one where the second does.
\<close>

definition world0 :: world where
  "world0 = \<lparr>trace = [], wout = (\<lambda>i. None), wix = 0, rout = (\<lambda>i. Inl err_eof), rix = 0,
             clock = (\<lambda>i. 1000), tix = 0, chans = 0\<rparr>"

definition world_w1 :: world where
  "world_w1 = world0\<lparr>wout := (\<lambda>i. if i = 0 then Some err_eof else None)\<rparr>"

definition world_w2 :: world where
  "world_w2 = world0\<lparr>wout := (\<lambda>i. if i = 1 then Some err_eof else None)\<rparr>"

text \<open>A world where the first write meets an error of no known class.\<close>

definition world_wu :: world where
  "world_wu = world0\<lparr>wout := (\<lambda>i. if i = 0 then Some err_other else None)\<rparr>"

text \<open>
  A server holding key \<open>k\<close> with an expiration at 5000 ms; a roster of three connections,
  of which 1 is open and subscribed to \<open>px\<close>, 2 is subscribed but not ready, and 3 is open
  without subscription; a message that marshals and one that does not.
\<close>

definition server_k :: ServerIO where
  "server_k = (NewBanServer '':9001'' ''srv'')
     \<lparr>Data := GoMap [''k'' \<mapsto> VString ''hello''], DataExp := GoMap [''k'' \<mapsto> 5000]\<rparr>"

definition heap0 :: "nat \<Rightarrow> BanConn" where
  "heap0 i = (if i = 1 then conn7
              else if i = 2 then conn7\<lparr>Ready := False\<rparr>
              else conn7\<lparr>Tags := GoMap Map.empty\<rparr>)"

definition server_r :: ServerIO where
  "server_r = (NewBanServer '':9001'' ''srv'')\<lparr>Conns := [1, 2, 3]\<rparr>"

definition msg_px :: IOMsg where
  "msg_px = \<lparr>Action = ''px'', Data = VInt32 100\<rparr>"

definition msg_opaque :: IOMsg where
  "msg_opaque = \<lparr>Action = ''px'', Data = VOpaque 0\<rparr>"

text \<open>A client with no waiter, and a process whose server holds the lock \<open>job\<close> with nonce 42.\<close>

definition client0 :: ClientIO where
  "client0 = \<lparr>conn = conn7, Addr = '':9001'', waits = GoMap Map.empty\<rparr>"

definition server_lock :: ServerIO where
  "server_lock = (NewBanServer '':9001'' ''srv'')\<lparr>Data := GoMap [''lock_job'' \<mapsto> VInt32 42]\<rparr>"

definition globals_s :: globals where
  "globals_s = \<lparr>banServer = Some server_lock, banClient = None\<rparr>"

text \<open>
  A process whose server holds a string under the lock's key, a process that holds the
  client only, and libraries whose compression fails.
\<close>

definition server_abc :: ServerIO where
  "server_abc = (NewBanServer '':9001'' ''srv'')\<lparr>Data := GoMap [''lock_job'' \<mapsto> VString ''abc'']\<rparr>"

definition globals_abc :: globals where
  "globals_abc = \<lparr>banServer = Some server_abc, banClient = None\<rparr>"

definition globals_c :: globals where
  "globals_c = \<lparr>banServer = None, banClient = Some client0\<rparr>"

definition libs_zfail :: libs where
  "libs_zfail = libs0\<lparr>zlib_write := (\<lambda>b. Inl ''zlib: write error'')\<rparr>"


section \<open>Writing a frame\<close>

text \<open>
  C10. In a call of \<open>Write\<close> where the write of the four length bytes succeeds and the
  write of the payload fails, the call clears \<open>Ready\<close> and returns an error of kind
  \<open>ErrNetWriteFail\<close>. Nothing else happens: the socket is kept, the trace holds the two
  writes only, and this is so whatever the hooks, the fuel and the class of the error.
\<close>

theorem Write_payload_fail:
  assumes "Conn c = Some sk" "wout w (wix w) = None" "wout w (Suc (wix w)) = Some e"
  shows "Write H fuel data (c, w) =
    (Ret (Some (Error (Some ErrNetWriteFail) (Net e))), c\<lparr>Ready := False\<rparr>,
     w\<lparr>trace := trace w @ [EvSockWrite sk (PutUint32 (of_nat (length data))) None,
                            EvSockWrite sk data (Some e)],
       wix := Suc (Suc (wix w))\<rparr>)"
  using assms by (cases fuel) (simp_all add: Write_body_def sock_write_def emit_def Let_def)

text \<open>
  The same at an example with a reconnect hook and an error that \<open>getErrType\<close> classifies
  as \<open>ErrNetConnect\<close>.
\<close>

theorem Write_payload_fail_witness:
  "Conn conn7 = Some 7 \<and> wout world_w2 (wix world_w2) = None
   \<and> wout world_w2 (Suc (wix world_w2)) = Some err_eof
   \<and> DoConnect hooks_dial \<noteq> None
   \<and> fst (getErrType (Some err_eof)) = Some ErrNetConnect
   \<and> Write hooks_dial 5 [1, 2] (conn7, world_w2) =
      (Ret (Some (Error (Some ErrNetWriteFail) (Net err_eof))), conn7\<lparr>Ready := False\<rparr>,
       world_w2\<lparr>trace := [EvSockWrite 7 (PutUint32 2) None, EvSockWrite 7 [1, 2] (Some err_eof)],
                wix := 2\<rparr>)"
  using Write_payload_fail [of conn7 7 world_w2 err_eof hooks_dial 5 "[1, 2]"]
  by (simp add: conn7_def world_w2_def world0_def hooks_dial_def err_eof_def)

section \<open>Recovery of the connection\<close>

lemma connect_lock_fresh:
  assumes "\<not> m c" "Ready c" "wrap64 (clock w (tix w) - RefreshMS c) < 2000"
  shows "connect H True (c, w) =
    (Ret (), c, w\<lparr>trace := trace w @ [EvLock, EvUnlock], tix := Suc (tix w)\<rparr>)"
  using assms by (simp add: connect_def TimeMS_def emit_def Let_def)

text \<open>
  C8, as the code has it. The test for a fresh connection is made by \<open>connect(true)\<close>
  only, which is how \<open>Read\<close> calls it. Take a connection with a socket and a reconnect
  hook, and an error that \<open>getErrType\<close> classifies as \<open>ErrNetConnect\<close>.
  When \<open>Read\<close> meets the error, the mutex is free, the connection is ready and was
  refreshed less than 2000 ms before, the recovery is skipped: the connection is left as
  it is (socket neither closed, nor set to nil, nor dialled again) and \<open>Read\<close> retries.
  When \<open>Write\<close> meets the error on the length bytes, no test is made, whatever \<open>Ready\<close>
  and \<open>RefreshMS\<close> were: \<open>Ready\<close> is cleared, the socket is closed and set to nil, the
  hook is called after the sleep, the time is stamped, and \<open>Write\<close> retries.
\<close>

theorem recovery_skip_only_on_read:
  assumes "Conn c = Some sk" "fst (getErrType (Some e)) = Some ErrNetConnect"
    and "DoConnect H = Some dial"
  shows "(rout w (rix w) = Inl e \<and> \<not> m c \<and> Ready c
            \<and> wrap64 (clock w (tix w) - RefreshMS c) < 2000 \<longrightarrow>
          (let w1 = w\<lparr>trace := trace w @ [EvSockRead sk 4 (Inl e),
                           EvLog ''read fail, wait 3s and retry'', EvLock, EvUnlock],
                      rix := Suc (rix w), tix := Suc (tix w)\<rparr>
           in Read_body H (c, w) = (Ret Retry, c, w1)
              \<and> Read H (Suc fuel) (c, w) = Read H fuel (c, w1)))
       \<and> (wout w (wix w) = Some e \<longrightarrow>
          (let c5 = (dial (c\<lparr>Ready := False, Conn := None\<rparr>))\<lparr>RefreshMS := clock w (tix w)\<rparr>;
               c6 = (if Conn c5 \<noteq> None
                     then (case ReInitConn H of
                             Some reinit \<Rightarrow> (reinit c5)\<lparr>Ready := True\<rparr>
                           | None \<Rightarrow> c5\<lparr>Ready := True\<rparr>)
                     else c5);
               w1 = w\<lparr>trace := trace w
                         @ [EvSockWrite sk (PutUint32 (of_nat (length data))) (Some e),
                            EvLog ''write fail, wait 3s and retry'',
                            EvSockClose sk, EvSleep 3, EvDoConnect]
                         @ (if Conn c5 \<noteq> None \<and> ReInitConn H \<noteq> None
                            then [EvReInitConn] else []),
                      wix := Suc (wix w), tix := Suc (tix w)\<rparr>
           in Write_body H data (c, w) = (Ret Retry, c6, w1)
              \<and> Write H (Suc fuel) data (c, w) = Write H fuel data (c6, w1)))"
proof -
  obtain ty where ty: "getErrType (Some e) = (Some ErrNetConnect, ty)"
    using assms(2) by (cases "getErrType (Some e)") simp
  have rd: "Read_body H (c, w) =
            (Ret Retry, c,
             w\<lparr>trace := trace w @ [EvSockRead sk 4 (Inl e),
                     EvLog ''read fail, wait 3s and retry'', EvLock, EvUnlock],
               rix := Suc (rix w), tix := Suc (tix w)\<rparr>)"
    if r: "rout w (rix w) = Inl e" and f: "\<not> m c" "Ready c"
      "wrap64 (clock w (tix w) - RefreshMS c) < 2000"
  proof -
    let ?w2 = "emit [EvLog ''read fail, wait 3s and retry'']
                 (emit [EvSockRead sk 4 (Inl e)] (w\<lparr>rix := Suc (rix w)\<rparr>))"
    have fresh: "wrap64 (clock ?w2 (tix ?w2) - RefreshMS c) < 2000"
      using f(3) by (simp add: emit_def)
    have "connect H True (c, ?w2) =
            (Ret (), c, ?w2\<lparr>trace := trace ?w2 @ [EvLock, EvUnlock], tix := Suc (tix ?w2)\<rparr>)"
      by (rule connect_lock_fresh [OF f(1) f(2) fresh])
    then show ?thesis
      using assms(1,3) r ty
      by (simp add: Read_body_def sock_read_def emit_def Let_def del: getErrType.simps)
  qed
  have wr: "Write_body H data (c, w) =
      (Ret Retry,
       (if Conn ((dial (c\<lparr>Ready := False, Conn := None\<rparr>))\<lparr>RefreshMS := clock w (tix w)\<rparr>) \<noteq> None
        then (case ReInitConn H of
                Some reinit \<Rightarrow>
                  (reinit ((dial (c\<lparr>Ready := False, Conn := None\<rparr>))
                              \<lparr>RefreshMS := clock w (tix w)\<rparr>))\<lparr>Ready := True\<rparr>
              | None \<Rightarrow> (dial (c\<lparr>Ready := False, Conn := None\<rparr>))
                              \<lparr>RefreshMS := clock w (tix w), Ready := True\<rparr>)
        else (dial (c\<lparr>Ready := False, Conn := None\<rparr>))\<lparr>RefreshMS := clock w (tix w)\<rparr>),
       w\<lparr>trace := trace w
             @ [EvSockWrite sk (PutUint32 (of_nat (length data))) (Some e),
                EvLog ''write fail, wait 3s and retry'',
                EvSockClose sk, EvSleep 3, EvDoConnect]
             @ (if Conn ((dial (c\<lparr>Ready := False, Conn := None\<rparr>))
                           \<lparr>RefreshMS := clock w (tix w)\<rparr>) \<noteq> None
                   \<and> ReInitConn H \<noteq> None
                then [EvReInitConn] else []),
          wix := Suc (wix w), tix := Suc (tix w)\<rparr>)"
    if "wout w (wix w) = Some e"
    using that assms(1,3) ty
    by (cases "ReInitConn H")
      (simp_all add: Write_body_def sock_write_def emit_def connect_def reconnect_def
        TimeMS_def Let_def del: getErrType.simps)
  show ?thesis
  proof (intro conjI impI)
    assume a: "rout w (rix w) = Inl e \<and> \<not> m c \<and> Ready c
                 \<and> wrap64 (clock w (tix w) - RefreshMS c) < 2000"
    then have "Read_body H (c, w) =
            (Ret Retry, c,
             w\<lparr>trace := trace w @ [EvSockRead sk 4 (Inl e),
                     EvLog ''read fail, wait 3s and retry'', EvLock, EvUnlock],
               rix := Suc (rix w), tix := Suc (tix w)\<rparr>)"
      using rd by blast
    then show "let w1 = w\<lparr>trace := trace w @ [EvSockRead sk 4 (Inl e),
                           EvLog ''read fail, wait 3s and retry'', EvLock, EvUnlock],
                      rix := Suc (rix w), tix := Suc (tix w)\<rparr>
           in Read_body H (c, w) = (Ret Retry, c, w1)
              \<and> Read H (Suc fuel) (c, w) = Read H fuel (c, w1)"
      by (simp add: Let_def)
  next
    assume "wout w (wix w) = Some e"
    from wr [OF this]
    show "let c5 = (dial (c\<lparr>Ready := False, Conn := None\<rparr>))\<lparr>RefreshMS := clock w (tix w)\<rparr>;
               c6 = (if Conn c5 \<noteq> None
                     then (case ReInitConn H of
                             Some reinit \<Rightarrow> (reinit c5)\<lparr>Ready := True\<rparr>
                           | None \<Rightarrow> c5\<lparr>Ready := True\<rparr>)
                     else c5);
               w1 = w\<lparr>trace := trace w
                         @ [EvSockWrite sk (PutUint32 (of_nat (length data))) (Some e),
                            EvLog ''write fail, wait 3s and retry'',
                            EvSockClose sk, EvSleep 3, EvDoConnect]
                         @ (if Conn c5 \<noteq> None \<and> ReInitConn H \<noteq> None
                            then [EvReInitConn] else []),
                      wix := Suc (wix w), tix := Suc (tix w)\<rparr>
           in Write_body H data (c, w) = (Ret Retry, c6, w1)
              \<and> Write H (Suc fuel) data (c, w) = Write H fuel data (c6, w1)"
      by (simp add: Let_def)
  qed
qed

theorem recovery_skip_only_on_read_witness:
  "Read_body hooks_dial (conn7, world0) =
     (Ret Retry, conn7,
      world0\<lparr>trace := [EvSockRead 7 4 (Inl err_eof), EvLog ''read fail, wait 3s and retry'',
                        EvLock, EvUnlock],
             rix := 1, tix := 1\<rparr>)
   \<and> Write_body hooks_dial [1] (conn7, world_w1) =
     (Ret Retry, conn7\<lparr>Conn := Some 8\<rparr>,
      world_w1\<lparr>trace := [EvSockWrite 7 (PutUint32 1) (Some err_eof),
                         EvLog ''write fail, wait 3s and retry'',
                         EvSockClose 7, EvSleep 3, EvDoConnect],
               wix := 1, tix := 1\<rparr>)"
  using recovery_skip_only_on_read [of conn7 7 err_eof hooks_dial "\<lambda>c. c\<lparr>Conn := Some 8\<rparr>" world0 0 "[1]"]
    recovery_skip_only_on_read [of conn7 7 err_eof hooks_dial "\<lambda>c. c\<lparr>Conn := Some 8\<rparr>" world_w1 0 "[1]"]
  by (simp add: conn7_def world0_def world_w1_def hooks_dial_def err_eof_def wrap64_def Let_def)

text \<open>
  C8 as stated fails for a recovery that \<open>Write\<close> starts. \<open>Write\<close> clears \<open>Ready\<close> and
  calls \<open>connect(false)\<close>, which makes no test: on a connection that is ready and was
  refreshed 0 ms before, a first write that meets the end of file has the socket 7 closed
  and the hook dial socket 8, on which the frame is then written.
\<close>

theorem Write_recovery_not_skipped:
  "Ready conn7 \<and> wrap64 (clock world_w1 (tix world_w1) - RefreshMS conn7) < 2000
   \<and> fst (getErrType (Some err_eof)) = Some ErrNetConnect
   \<and> Write hooks_dial 1 [1] (conn7, world_w1) =
      (Ret None, conn7\<lparr>Conn := Some 8\<rparr>,
       world_w1\<lparr>trace := [EvSockWrite 7 (PutUint32 1) (Some err_eof),
                          EvLog ''write fail, wait 3s and retry'',
                          EvSockClose 7, EvSleep 3, EvDoConnect,
                          EvSockWrite 8 (PutUint32 1) None, EvSockWrite 8 [1] None],
                wix := 3, tix := 1\<rparr>)"
  by (simp add: conn7_def world_w1_def world0_def hooks_dial_def err_eof_def wrap64_def
      Write_body_def sock_write_def emit_def connect_def reconnect_def TimeMS_def Let_def)

section \<open>The mutex around the writes of a frame\<close>

lemma held_writes_mutex_free:
  "mutex_free es \<Longrightarrow> held_writes True (es @ ys) = held_writes True ys"
proof (induction es)
  case Nil
  then show ?case by simp
next
  case (Cons e es)
  then show ?case by (cases e) (simp_all add: mutex_free_def)
qed

lemma reconnect_trace:
  "reconnect H (c, w) = (r, c', w') \<Longrightarrow> \<exists>es. trace w' = trace w @ es \<and> mutex_free es"
  by (auto simp add: reconnect_def emit_def TimeMS_def Let_def mutex_free_def
      split: option.splits if_splits)

lemma Write_body_trace:
  assumes "Write_body H data (c, w) = (r, c', w')"
  shows "\<exists>es. trace w' = trace w @ es \<and> mutex_free es"
proof (cases "Conn c")
  case None
  with assms show ?thesis by (simp add: Write_body_def mutex_free_def)
next
  case (Some sk)
  show ?thesis
  proof (cases "wout w (wix w)")
    case None
    with Some assms show ?thesis
      by (auto simp add: Write_body_def sock_write_def emit_def Let_def mutex_free_def
          split: option.splits)
  next
    case (Some e)
    let ?w1 = "emit [EvSockWrite sk (PutUint32 (of_nat (length data))) (Some e)]
                 (w\<lparr>wix := Suc (wix w)\<rparr>)"
    let ?w2 = "emit [EvLog ''write fail, wait 3s and retry''] ?w1"
    show ?thesis
    proof (cases "DoConnect H \<noteq> None \<and> fst (getErrType (Some e)) = Some ErrNetConnect")
      case False
      with Some \<open>Conn c = Some sk\<close> assms show ?thesis
        by (auto simp add: Write_body_def sock_write_def emit_def Let_def mutex_free_def
            split: prod.splits simp del: getErrType.simps)
    next
      case True
      obtain r3 c3 w3 where rc: "reconnect H (c\<lparr>Ready := False\<rparr>, ?w2) = (r3, c3, w3)"
        by (cases "reconnect H (c\<lparr>Ready := False\<rparr>, ?w2)") auto
      from reconnect_trace [OF rc] obtain es where es: "trace w3 = trace ?w2 @ es" "mutex_free es"
        by blast
      have "w' = w3"
        using True Some \<open>Conn c = Some sk\<close> assms rc
        by (auto simp add: Write_body_def sock_write_def connect_def Let_def
            split: prod.splits res.splits simp del: getErrType.simps)
      with es show ?thesis
        by (auto simp add: emit_def mutex_free_def)
    qed
  qed
qed

lemma Write_trace:
  "Write H fuel data (c, w) = (r, c', w') \<Longrightarrow> \<exists>es. trace w' = trace w @ es \<and> mutex_free es"
proof (induction fuel arbitrary: c w)
  case 0
  obtain rb cb wb where b: "Write_body H data (c, w) = (rb, cb, wb)"
    by (cases "Write_body H data (c, w)") auto
  from 0 b have "w' = wb"
    by (auto split: res.splits step.splits)
  with Write_body_trace [OF b] show ?case by simp
next
  case (Suc fuel)
  obtain rb cb wb where b: "Write_body H data (c, w) = (rb, cb, wb)"
    by (cases "Write_body H data (c, w)") auto
  from Write_body_trace [OF b] obtain es where es: "trace wb = trace w @ es" "mutex_free es"
    by blast
  show ?case
  proof (cases "rb = Ret Retry")
    case True
    with Suc.prems b have "Write H fuel data (cb, wb) = (r, c', w')" by simp
    from Suc.IH [OF this] obtain es2 where "trace w' = trace wb @ es2" "mutex_free es2"
      by blast
    with es show ?thesis by (auto simp add: mutex_free_def)
  next
    case False
    with Suc.prems b have "w' = wb"
      by (auto split: res.splits step.splits)
    with es show ?thesis by blast
  qed
qed

text \<open>
  What \<open>WriteMsg\<close> adds to the trace, started with the mutex free, has every write to the
  socket between its \<open>Lock\<close> and its \<open>Unlock\<close>, retries after a reconnection included.
\<close>

lemma WriteMsg_writes_under_mutex:
  assumes "WriteMsg L H fuel msg (c, w) = (r, c', w')"
  shows "\<exists>es. trace w' = trace w @ es \<and> held_writes False es"
proof (cases "\<exists>raw z. marshal L msg = Inr raw \<and> compress L raw = Inr z \<and> \<not> m c")
  case False
  with assms have "w' = w"
    by (auto simp add: WriteMsg_def split: sum.splits if_splits)
  then show ?thesis by simp
next
  case True
  then obtain raw z where enc: "marshal L msg = Inr raw" "compress L raw = Inr z" "\<not> m c"
    by blast
  obtain r2 c2 w2 where wr: "Write H fuel z (c\<lparr>m := True\<rparr>, emit [EvLock] w) = (r2, c2, w2)"
    by (cases "Write H fuel z (c\<lparr>m := True\<rparr>, emit [EvLock] w)") auto
  from Write_trace [OF wr] obtain es where es: "trace w2 = trace w @ EvLock # es" "mutex_free es"
    by (auto simp add: emit_def)
  have h: "held_writes True (es @ ys) = held_writes True ys" for ys
    by (rule held_writes_mutex_free [OF es(2)])
  from h [of "[]"] have h0: "held_writes True es" by simp
  show ?thesis
  proof (cases "r2 = Stuck")
    case True
    with assms enc wr have "w' = w2" by (simp add: WriteMsg_def)
    with es h0 show ?thesis by simp
  next
    case False
    with assms enc wr have "w' = emit [EvUnlock] w2"
      by (auto simp add: WriteMsg_def split: res.splits)
    with es h [of "[EvUnlock]"] show ?thesis by (simp add: emit_def)
  qed
qed

text \<open>
  C9. The claim asks that each recipient's frame in \<open>Broadcast\<close> be written under the
  connection's mutex, as \<open>WriteMsg\<close> does. The task \<open>Broadcast\<close> starts calls \<open>Write\<close>
  itself: for the one recipient of the example roster the length and the payload are
  written while the mutex of the connection is not held, and no \<open>Lock\<close> is in the trace.
\<close>

theorem Broadcast_write_without_mutex:
  "Broadcast libs0 heap0 msg_px server_r = (None, [(1, [123, 125])], server_r\<lparr>Conns := [1, 3]\<rparr>)
   \<and> Broadcast_go hooks_none 0 [123, 125] (heap0 1, world0) =
       (Ret (), heap0 1,
        world0\<lparr>trace := [EvSockWrite 7 (PutUint32 2) None, EvSockWrite 7 [123, 125] None],
               wix := 2\<rparr>)
   \<and> \<not> held_writes (m (heap0 1)) [EvSockWrite 7 (PutUint32 2) None, EvSockWrite 7 [123, 125] None]"
  by (simp add: libs0_def msg_px_def compress_def Broadcast_def heap0_def server_r_def
      NewBanServer_def conn7_def IsClosed_def HasTag_def Broadcast_go_def Write_body_def
      sock_write_def emit_def world0_def Let_def)

section \<open>Broadcast and the subscriptions\<close>

lemma Broadcast_scan_filter:
  "Broadcast_scan heap action xs (A, B) =
     (A @ filter (\<lambda>i. \<not> IsClosed (heap i)) xs,
      B @ filter (\<lambda>i. \<not> IsClosed (heap i) \<and> HasTag (heap i) action) xs)"
  by (induction xs arbitrary: A B) auto

text \<open>
  C3, as the code has it. In every case \<open>Broadcast\<close> leaves in the roster the connections
  that are not closed. When the message marshals and compresses, it returns no error and
  starts a write of the encoded frame for a connection exactly when the connection is in
  the roster, is not closed and holds the action among its tags. When some such
  connection exists and the message does not marshal, or its bytes do not compress,
  it returns that error and starts no write. When no such connection exists it returns
  no error and starts no write.
\<close>

theorem Broadcast_gating:
  "snd (snd (Broadcast L heap msg s)) =
      s\<lparr>Conns := filter (\<lambda>i. \<not> IsClosed (heap i)) (Conns s)\<rparr>
   \<and> (\<forall>raw z. marshal L msg = Inr raw \<and> compress L raw = Inr z \<longrightarrow>
         fst (Broadcast L heap msg s) = None
         \<and> (\<forall>i b. (i, b) \<in> set (fst (snd (Broadcast L heap msg s))) \<longleftrightarrow>
               i \<in> set (Conns s) \<and> \<not> IsClosed (heap i) \<and> HasTag (heap i) (Action msg) \<and> b = z))
   \<and> (\<forall>e. marshal L msg = Inl e
           \<and> (\<exists>i \<in> set (Conns s). \<not> IsClosed (heap i) \<and> HasTag (heap i) (Action msg)) \<longrightarrow>
         fst (Broadcast L heap msg s) = Some (Error (Some ErrMarshalFail) (Lib e))
         \<and> fst (snd (Broadcast L heap msg s)) = [])
   \<and> (\<forall>raw err. marshal L msg = Inr raw \<and> compress L raw = Inl err
           \<and> (\<exists>i \<in> set (Conns s). \<not> IsClosed (heap i) \<and> HasTag (heap i) (Action msg)) \<longrightarrow>
         fst (Broadcast L heap msg s) = Some err
         \<and> fst (snd (Broadcast L heap msg s)) = [])
   \<and> ((\<forall>i \<in> set (Conns s). IsClosed (heap i) \<or> \<not> HasTag (heap i) (Action msg)) \<longrightarrow>
         fst (Broadcast L heap msg s) = None
         \<and> fst (snd (Broadcast L heap msg s)) = [])"
proof -
  let ?cur = "filter (\<lambda>i. \<not> IsClosed (heap i) \<and> HasTag (heap i) (Action msg)) (Conns s)"
  have scan: "Broadcast_scan heap (Action msg) (Conns s) ([], []) =
                (filter (\<lambda>i. \<not> IsClosed (heap i)) (Conns s), ?cur)"
    by (simp add: Broadcast_scan_filter)
  have none: "?cur = [] \<longleftrightarrow>
                (\<forall>i \<in> set (Conns s). IsClosed (heap i) \<or> \<not> HasTag (heap i) (Action msg))"
    by (auto simp add: filter_empty_conv)
  have roster: "snd (snd (Broadcast L heap msg s)) =
                  s\<lparr>Conns := filter (\<lambda>i. \<not> IsClosed (heap i)) (Conns s)\<rparr>"
    by (simp add: Broadcast_def scan Let_def split: sum.splits)
  have ok: "fst (Broadcast L heap msg s) = None
            \<and> (\<forall>i b. (i, b) \<in> set (fst (snd (Broadcast L heap msg s))) \<longleftrightarrow>
                  i \<in> set (Conns s) \<and> \<not> IsClosed (heap i) \<and> HasTag (heap i) (Action msg) \<and> b = z)"
    if "marshal L msg = Inr raw" "compress L raw = Inr z" for raw z
    using that by (auto simp add: Broadcast_def scan Let_def filter_empty_conv)
  have mfail: "fst (Broadcast L heap msg s) = Some (Error (Some ErrMarshalFail) (Lib e))
               \<and> fst (snd (Broadcast L heap msg s)) = []"
    if "marshal L msg = Inl e" "?cur \<noteq> []" for e
    using that by (simp add: Broadcast_def scan Let_def)
  have cfail: "fst (Broadcast L heap msg s) = Some err \<and> fst (snd (Broadcast L heap msg s)) = []"
    if "marshal L msg = Inr raw" "compress L raw = Inl err" "?cur \<noteq> []" for raw err
    using that by (simp add: Broadcast_def scan Let_def)
  have empty: "fst (Broadcast L heap msg s) = None \<and> fst (snd (Broadcast L heap msg s)) = []"
    if "?cur = []"
    using that by (simp add: Broadcast_def scan Let_def)
  show ?thesis
    using roster ok mfail cfail empty none by blast
qed

theorem Broadcast_gating_witness:
  "Broadcast libs0 heap0 msg_px server_r = (None, [(1, [123, 125])], server_r\<lparr>Conns := [1, 3]\<rparr>)
   \<and> Broadcast libs0 heap0 msg_opaque server_r =
       (Some (Error (Some ErrMarshalFail) (Lib ''unsupported type'')), [],
        server_r\<lparr>Conns := [1, 3]\<rparr>)
   \<and> Broadcast libs_zfail heap0 msg_px server_r =
       (Some (Error (Some ErrCompressFail) (Lib ''zlib: write error'')), [],
        server_r\<lparr>Conns := [1, 3]\<rparr>)
   \<and> Broadcast libs0 heap0 \<lparr>Action = ''vol'', Data = VInt32 1\<rparr> server_r =
       (None, [], server_r\<lparr>Conns := [1, 3]\<rparr>)"
  using Broadcast_gating [of libs0 heap0 msg_px server_r]
    Broadcast_gating [of libs0 heap0 msg_opaque server_r]
    Broadcast_gating [of libs_zfail heap0 msg_px server_r]
    Broadcast_gating [of libs0 heap0 "\<lparr>Action = ''vol'', Data = VInt32 1\<rparr>" server_r]
  by (simp add: libs0_def libs_zfail_def msg_px_def msg_opaque_def compress_def Broadcast_def
      heap0_def server_r_def NewBanServer_def conn7_def IsClosed_def HasTag_def)

text \<open>
  C3 as stated, for every message, fails where the message does not marshal:
  \<open>Broadcast\<close> returns \<open>ErrMarshalFail\<close> before any write is started, though connection 1
  is in the roster, is not closed and is subscribed to the action. The roster is pruned
  all the same.
\<close>

theorem Broadcast_marshal_fail_sends_nothing:
  "1 \<in> set (Conns server_r) \<and> \<not> IsClosed (heap0 1) \<and> HasTag (heap0 1) (Action msg_opaque)
   \<and> Broadcast libs0 heap0 msg_opaque server_r =
       (Some (Error (Some ErrMarshalFail) (Lib ''unsupported type'')), [],
        server_r\<lparr>Conns := [1, 3]\<rparr>)"
  by (simp add: libs0_def msg_opaque_def Broadcast_def heap0_def server_r_def
      NewBanServer_def conn7_def IsClosed_def HasTag_def)

section \<open>Handler dispatch\<close>

lemma range_Listens_find:
  "set ord \<subseteq> dom ls \<Longrightarrow>
   range_Listens ls ord action =
     (case find (\<lambda>p. prefix p action) ord of None \<Rightarrow> None | Some p \<Rightarrow> Some (p, the (ls p)))"
  by (induction ord) auto

text \<open>
  One turn of the loop of \<open>RunForever\<close>: a message read is dispatched and the loop goes
  on; an error read ends it, and the socket taken on entry is closed.
\<close>

lemma RunForever_loop_message:
  "ReadMsg L H fuel cw = (Ret (Inr msg), c, w) \<Longrightarrow>
   RunForever_loop L H fuel (ord # ords) cw =
     RunForever_loop L H fuel ords (c, dispatch c ord msg w)"
  by simp

lemma RunForever_read_error:
  "Conn (fst cw) = Some sk \<Longrightarrow> ReadMsg L H fuel cw = (Ret (Inl err), c, w) \<Longrightarrow>
   RunForever L H fuel ords cw = (Ret err, c, emit [EvSockClose sk] w)"
  by (cases ords) (simp_all add: RunForever_def)

text \<open>
  C2, as the code has it. For a message and the order \<open>ord\<close> in which the loop visits the
  handler table, the handler called is the one registered under the first prefix of the
  action in \<open>ord\<close>, and it is called with the action and the data; when no registered
  prefix is a prefix of the action, no handler is called and one line is logged.
\<close>

theorem dispatch_first_in_range_order:
  assumes "range_order (Listens c) ord"
  shows "(\<exists>p h. find (\<lambda>p. prefix p (Action msg)) ord = Some p
                \<and> entries (Listens c) p = Some h
                \<and> dispatch c ord msg w = emit [EvCall p h (Action msg) (IOMsg.Data msg)] w)
         \<or> ((\<forall>p \<in> dom (entries (Listens c)). \<not> prefix p (Action msg))
            \<and> dispatch c ord msg w = emit [EvLog ''unhandle msg''] w)"
proof -
  have sub: "set ord \<subseteq> dom (entries (Listens c))"
    and eq: "set ord = dom (entries (Listens c))"
    using assms by (simp_all add: range_order_def)
  note rf = range_Listens_find [OF sub, of "Action msg"]
  show ?thesis
  proof (cases "find (\<lambda>p. prefix p (Action msg)) ord")
    case None
    then have "\<forall>p \<in> set ord. \<not> prefix p (Action msg)"
      by (simp add: find_None_iff)
    with None rf eq show ?thesis by (simp add: dispatch_def)
  next
    case (Some p)
    then have "p \<in> set ord" by (auto simp: find_Some_iff)
    with eq obtain h where h: "entries (Listens c) p = Some h" by auto
    with Some rf show ?thesis by (simp add: dispatch_def)
  qed
qed

theorem dispatch_first_in_range_order_witness:
  "range_order (Listens conn7) [''onGet'', ''on'']
   \<and> dispatch conn7 [''onGet'', ''on''] \<lparr>Action = ''onGetVal'', Data = VString ''k''\<rparr> world0
       = emit [EvCall ''onGet'' 2 ''onGetVal'' (VString ''k'')] world0
   \<and> dispatch conn7 [''onGet'', ''on''] \<lparr>Action = ''px'', Data = VNil\<rparr> world0
       = emit [EvLog ''unhandle msg''] world0"
  using dispatch_first_in_range_order
      [of conn7 "[''onGet'', ''on'']" "\<lparr>Action = ''onGetVal'', Data = VString ''k''\<rparr>" world0]
    dispatch_first_in_range_order
      [of conn7 "[''onGet'', ''on'']" "\<lparr>Action = ''px'', Data = VNil\<rparr>" world0]
  by (auto simp add: range_order_def conn7_def regs0_def dispatch_def)

text \<open>
  C2 as stated fails. With handlers registered under \<open>on\<close> and \<open>onGet\<close>, the longest
  registered prefix of \<open>onGetVal\<close> is \<open>onGet\<close>; a loop that visits \<open>on\<close> first, which is
  one of the orders open to it, calls the handler of \<open>on\<close>.
\<close>

theorem dispatch_not_longest_prefix:
  "entries (Listens conn7) = map_of regs0
   \<and> range_order (Listens conn7) [''on'', ''onGet'']
   \<and> spec_longest regs0 ''onGetVal'' = Some (''onGet'', 2)
   \<and> dispatch conn7 [''on'', ''onGet''] \<lparr>Action = ''onGetVal'', Data = VString ''k''\<rparr> world0
       = emit [EvCall ''on'' 1 ''onGetVal'' (VString ''k'')] world0"
  by (auto simp add: range_order_def conn7_def regs0_def dispatch_def)

section \<open>The key/value store\<close>

lemma wrap64_id: "- (2 ^ 63) \<le> x \<Longrightarrow> x < 2 ^ 63 \<Longrightarrow> wrap64 x = x"
  unfolding wrap64_def by (simp add: signed_take_bit_int_eq_self)

text \<open>
  On a server whose two maps exist, and short of 64-bit overflow, a value set with a
  time to live is read back before the expiration and is gone, with both its entries,
  at the first read from the expiration on.
\<close>

lemma SetVal_GetVal_ttl:
  assumes "ServerIO.Data s = GoMap d" "DataExp s = GoMap x" "v \<noteq> VNil" "0 < secs"
    and "secs * 1000 < 2 ^ 63" "- (2 ^ 63) \<le> t" "t + secs * 1000 < 2 ^ 63"
  shows "\<exists>s1. SetVal t \<lparr>Key = k, Val = v, ExpireSecs = secs\<rparr> s = Inr s1
           \<and> (\<forall>t'. t' < t + secs * 1000 \<longrightarrow> GetVal t' k s1 = (v, s1))
           \<and> (\<forall>t'. t' \<ge> t + secs * 1000 \<longrightarrow>
                 GetVal t' k s1 = (VNil, s1\<lparr>Data := GoMap (d(k := None)),
                                             DataExp := GoMap (x(k := None))\<rparr>))"
proof -
  have a: "wrap64 (secs * 1000) = secs * 1000"
    using assms(4,5) by (intro wrap64_id) auto
  have b: "wrap64 (t + secs * 1000) = t + secs * 1000"
    using assms(4,6,7) by (intro wrap64_id) auto
  show ?thesis
    using assms(1-4) by (simp add: SetVal_def GetVal_def a b)
qed

text \<open>
  C4. The claim asks that a value set with a time to live be readable until it expires.
  On the server that \<open>NewBanServer\<close> builds, whose \<open>DataExp\<close> is the nil map, \<open>SetVal\<close>
  with a positive \<open>ExpireSecs\<close> does not store an expiration: its assignment to
  \<open>DataExp\<close> panics.
\<close>

theorem SetVal_ttl_new_server_panics:
  "SetVal 0 \<lparr>Key = ''t'', Val = VString ''x'', ExpireSecs = 1\<rparr> (NewBanServer '':9001'' ''srv'')
     = Inl NilMapAssign"
  by (simp add: SetVal_def NewBanServer_def)

lemma SetVal_nil_keeps_expiration:
  "SetVal now \<lparr>Key = k, Val = VNil, ExpireSecs = secs\<rparr> s
     = Inr (s\<lparr>Data := map_delete (ServerIO.Data s) k\<rparr>)"
  by (simp add: SetVal_def)

text \<open>
  C5. The claim asks that a set with a nil value remove the value and the expiration of
  the key, as \<open>GetVal\<close> does on expiry. \<open>SetVal\<close> removes the value only: for key \<open>k\<close>
  held with an expiration at 5000 ms, the expiration is still there after the set with
  nil at 1000 ms; a value set without time to live at 2000 ms is then lost to the read at
  6000 ms.
\<close>

theorem SetVal_nil_stale_expiration:
  "SetVal 1000 \<lparr>Key = ''k'', Val = VNil, ExpireSecs = 0\<rparr> server_k
     = Inr (server_k\<lparr>Data := GoMap Map.empty\<rparr>)
   \<and> map_get (DataExp (server_k\<lparr>Data := GoMap Map.empty\<rparr>)) ''k'' = Some 5000
   \<and> fst (GetVal 1500 ''k'' (server_k\<lparr>Data := GoMap Map.empty\<rparr>)) = VNil
   \<and> SetVal 2000 \<lparr>Key = ''k'', Val = VString ''new'', ExpireSecs = 0\<rparr>
        (server_k\<lparr>Data := GoMap Map.empty\<rparr>)
     = Inr (server_k\<lparr>Data := GoMap [''k'' \<mapsto> VString ''new'']\<rparr>)
   \<and> fst (GetVal 6000 ''k'' (server_k\<lparr>Data := GoMap [''k'' \<mapsto> VString ''new'']\<rparr>)) = VNil"
  by (simp add: SetVal_def GetVal_def server_k_def NewBanServer_def)

section \<open>The client's read of a value\<close>

text \<open>
  C6, as the code has it. \<open>GetVal\<close> sends the envelope first. When the send returns an
  error, \<open>GetVal\<close> returns it and nothing more is done. When the send succeeded, a channel
  is made and put in \<open>waits\<close> under the key, and the \<open>select\<close> waits for the given number
  of seconds, 120 for 0: a value received is returned; on timeout the channel is closed,
  the key is removed from \<open>waits\<close>, and nil is returned without error.
\<close>

theorem ClientIO_GetVal_send_then_wait:
  assumes "WriteMsg L H fuel \<lparr>Action = ''onGetVal'', Data = VString key\<rparr> (conn cl, w)
             = (Ret r, c1, w1)"
  shows "(\<forall>err. r = Some err \<longrightarrow>
            ClientIO_GetVal L H fuel sel key timeout (cl, w) =
              (Ret (VNil, Some err), cl\<lparr>conn := c1\<rparr>, w1))
    \<and> (\<forall>ws v. r = None \<and> waits cl = GoMap ws \<and> sel = Received v \<longrightarrow>
          ClientIO_GetVal L H fuel sel key timeout (cl, w) =
            (Ret (v, None), cl\<lparr>conn := c1, waits := GoMap (ws(key \<mapsto> chans w1))\<rparr>,
             w1\<lparr>trace := trace w1 @ [EvMakeChan (chans w1),
                     EvSelect (chans w1) (if timeout = 0 then 120 else timeout)],
                chans := Suc (chans w1)\<rparr>))
    \<and> (\<forall>ws. r = None \<and> waits cl = GoMap ws \<and> sel = TimedOut \<longrightarrow>
          ClientIO_GetVal L H fuel sel key timeout (cl, w) =
            (Ret (VNil, None), cl\<lparr>conn := c1, waits := GoMap (ws(key := None))\<rparr>,
             w1\<lparr>trace := trace w1 @ [EvMakeChan (chans w1),
                     EvSelect (chans w1) (if timeout = 0 then 120 else timeout),
                     EvCloseChan (chans w1)],
                chans := Suc (chans w1)\<rparr>))"
  using assms
  by (cases r) (auto simp add: ClientIO_GetVal_def emit_def readTimeout_def Let_def)

theorem ClientIO_GetVal_send_then_wait_witness:
  "WriteMsg libs0 hooks_none 0 \<lparr>Action = ''onGetVal'', Data = VString ''k''\<rparr> (conn client0, world0)
     = (Ret None, conn7,
        world0\<lparr>trace := [EvLock, EvSockWrite 7 (PutUint32 2) None,
                          EvSockWrite 7 [123, 125] None, EvUnlock], wix := 2\<rparr>)
   \<and> ClientIO_GetVal libs0 hooks_none 0 TimedOut ''k'' 0 (client0, world0) =
     (Ret (VNil, None), client0,
      world0\<lparr>trace := [EvLock, EvSockWrite 7 (PutUint32 2) None, EvSockWrite 7 [123, 125] None,
                        EvUnlock, EvMakeChan 0, EvSelect 0 120, EvCloseChan 0],
             wix := 2, chans := 1\<rparr>)"
  using ClientIO_GetVal_send_then_wait [of libs0 hooks_none 0 "''k''" client0 world0 None conn7
      "world0\<lparr>trace := [EvLock, EvSockWrite 7 (PutUint32 2) None,
                         EvSockWrite 7 [123, 125] None, EvUnlock], wix := 2\<rparr>" TimedOut 0]
  by (simp add: WriteMsg_def Write_body_def sock_write_def emit_def compress_def libs0_def
      client0_def conn7_def world0_def hooks_none_def Let_def)

text \<open>
  C6 as stated fails: the waiter is not installed before the send. A call whose send
  fails returns with no channel made and \<open>waits\<close> as it was; in a call whose send
  succeeds the frame is written before the channel is made.
\<close>

theorem ClientIO_GetVal_sends_first:
  "ClientIO_GetVal libs0 hooks_none 0 TimedOut ''k'' 1 (client0, world_wu) =
     (Ret (VNil, Some (Error (Some ErrNetUnknown) (Net err_other))),
      client0\<lparr>conn := conn7\<lparr>Ready := False\<rparr>\<rparr>,
      world_wu\<lparr>trace := [EvLock, EvSockWrite 7 (PutUint32 2) (Some err_other), EvUnlock],
               wix := 1\<rparr>)
   \<and> ClientIO_GetVal libs0 hooks_none 0 (Received (VString ''v'')) ''k'' 0 (client0, world0) =
     (Ret (VString ''v'', None), client0\<lparr>waits := GoMap [''k'' \<mapsto> 0]\<rparr>,
      world0\<lparr>trace := [EvLock, EvSockWrite 7 (PutUint32 2) None, EvSockWrite 7 [123, 125] None,
                        EvUnlock, EvMakeChan 0, EvSelect 0 120],
             wix := 2, chans := 1\<rparr>)"
  by (simp add: ClientIO_GetVal_def WriteMsg_def Write_body_def sock_write_def emit_def
      compress_def libs0_def client0_def conn7_def world_wu_def world0_def hooks_none_def
      err_other_def readTimeout_def Let_def)

section \<open>Releasing a lock\<close>

text \<open>
  C7, as the code has it. \<open>DelNetLock\<close> compares the nonce with \<open>valInt\<close>, the \<open>int32\<close>
  decoded from what the read of \<open>lock_\<close> + key returned, 0 when that is nil or does not
  decode.
  In the process that holds the server the read is \<open>GetVal\<close>: when \<open>valInt\<close> differs
  from the nonce, a line is logged, no error is returned and the server is as \<open>GetVal\<close>
  left it; when they are equal, no error is returned and the key is removed from \<open>Data\<close>.
  So with an unexpired \<open>int32\<close> nonce \<open>n\<close> stored, and a decoder that reads an \<open>int32\<close>
  as itself, another nonce leaves server and store as they were, and \<open>n\<close> removes the
  entry.
  In a process that holds a client only, the read is the client's \<open>GetVal\<close>: its error is
  returned as it is; when \<open>valInt\<close> differs from the nonce, a line is logged, no error is
  returned and nothing is sent after the read; when they are equal, the envelope
  \<open>onSetVal\<close> with the key and nil is sent and the result of the send returned.
  In a process with neither, the error \<open>ErrRunTime\<close> is returned.
\<close>

theorem DelNetLock_paths:
  "(\<forall>s. banServer g = Some s \<longrightarrow>
      (case GetVal now (''lock_'' @ key) s of
         (val, s1) \<Rightarrow>
           DelNetLock L H fuel now sel key lockVal (g, w) =
             (if valInt_of L val = lockVal
              then (Ret None,
                    g\<lparr>banServer :=
                         Some (s1\<lparr>Data := map_delete (ServerIO.Data s1) (''lock_'' @ key)\<rparr>)\<rparr>, w)
              else (Ret None, g\<lparr>banServer := Some s1\<rparr>, emit [EvLog ''del lock fail''] w))))
   \<and> (\<forall>s n. banServer g = Some s
         \<and> map_get (ServerIO.Data s) (''lock_'' @ key) = Some (VInt32 n)
         \<and> (\<forall>exp. map_get (DataExp s) (''lock_'' @ key) = Some exp \<longrightarrow> now < exp)
         \<and> decode_int32 L (VInt32 n) = Some n \<longrightarrow>
       DelNetLock L H fuel now sel key lockVal (g, w) =
         (if n = lockVal
          then (Ret None,
                g\<lparr>banServer :=
                     Some (s\<lparr>Data := map_delete (ServerIO.Data s) (''lock_'' @ key)\<rparr>)\<rparr>, w)
          else (Ret None, g, emit [EvLog ''del lock fail''] w)))
   \<and> (\<forall>cl. banServer g = None \<and> banClient g = Some cl \<longrightarrow>
      (case ClientIO_GetVal L H fuel sel (''lock_'' @ key) 0 (cl, w) of
         (Ret (val, Some err), cl1, w1) \<Rightarrow>
           DelNetLock L H fuel now sel key lockVal (g, w) =
             (Ret (Some err), g\<lparr>banClient := Some cl1\<rparr>, w1)
       | (Ret (val, None), cl1, w1) \<Rightarrow>
           DelNetLock L H fuel now sel key lockVal (g, w) =
             (if valInt_of L val = lockVal
              then (case WriteMsg L H fuel
                           \<lparr>Action = ''onSetVal'',
                            Data = VKeyValExpire (''lock_'' @ key) VNil 0\<rparr> (conn cl1, w1) of
                      (r, c2, w2) \<Rightarrow> (r, g\<lparr>banClient := Some (cl1\<lparr>conn := c2\<rparr>)\<rparr>, w2))
              else (Ret None, g\<lparr>banClient := Some cl1\<rparr>, emit [EvLog ''del lock fail''] w1))
       | (Panics p, cl1, w1) \<Rightarrow>
           DelNetLock L H fuel now sel key lockVal (g, w) =
             (Panics p, g\<lparr>banClient := Some cl1\<rparr>, w1)
       | (Stuck, cl1, w1) \<Rightarrow>
           DelNetLock L H fuel now sel key lockVal (g, w) =
             (Stuck, g\<lparr>banClient := Some cl1\<rparr>, w1)))
   \<and> (banServer g = None \<and> banClient g = None \<longrightarrow>
       DelNetLock L H fuel now sel key lockVal (g, w) =
         (Ret (Some (Error (Some ErrRunTime) (Msg ''banClient not load''))), g, w))"
proof (intro conjI allI impI)
  fix s assume "banServer g = Some s"
  then show "case GetVal now (''lock_'' @ key) s of
         (val, s1) \<Rightarrow>
           DelNetLock L H fuel now sel key lockVal (g, w) =
             (if valInt_of L val = lockVal
              then (Ret None,
                    g\<lparr>banServer :=
                         Some (s1\<lparr>Data := map_delete (ServerIO.Data s1) (''lock_'' @ key)\<rparr>)\<rparr>, w)
              else (Ret None, g\<lparr>banServer := Some s1\<rparr>, emit [EvLog ''del lock fail''] w))"
    by (simp add: DelNetLock_def GetServerData_def SetServerData_def SetVal_def Let_def
        split: prod.splits)
next
  fix s n
  assume a: "banServer g = Some s
         \<and> map_get (ServerIO.Data s) (''lock_'' @ key) = Some (VInt32 n)
         \<and> (\<forall>exp. map_get (DataExp s) (''lock_'' @ key) = Some exp \<longrightarrow> now < exp)
         \<and> decode_int32 L (VInt32 n) = Some n"
  then have get: "GetVal now (''lock_'' @ key) s = (VInt32 n, s)"
    by (auto simp add: GetVal_def split: option.splits)
  have g: "g\<lparr>banServer := Some s\<rparr> = g"
    using a by simp
  from a have v: "valInt_of L (VInt32 n) = n"
    by (simp add: valInt_of_def)
  show "DelNetLock L H fuel now sel key lockVal (g, w) =
         (if n = lockVal
          then (Ret None,
                g\<lparr>banServer :=
                     Some (s\<lparr>Data := map_delete (ServerIO.Data s) (''lock_'' @ key)\<rparr>)\<rparr>, w)
          else (Ret None, g, emit [EvLog ''del lock fail''] w))"
    using a get g v
    by (simp add: DelNetLock_def GetServerData_def SetServerData_def SetVal_def Let_def)
next
  fix cl assume "banServer g = None \<and> banClient g = Some cl"
  then show "case ClientIO_GetVal L H fuel sel (''lock_'' @ key) 0 (cl, w) of
         (Ret (val, Some err), cl1, w1) \<Rightarrow>
           DelNetLock L H fuel now sel key lockVal (g, w) =
             (Ret (Some err), g\<lparr>banClient := Some cl1\<rparr>, w1)
       | (Ret (val, None), cl1, w1) \<Rightarrow>
           DelNetLock L H fuel now sel key lockVal (g, w) =
             (if valInt_of L val = lockVal
              then (case WriteMsg L H fuel
                           \<lparr>Action = ''onSetVal'',
                            Data = VKeyValExpire (''lock_'' @ key) VNil 0\<rparr> (conn cl1, w1) of
                      (r, c2, w2) \<Rightarrow> (r, g\<lparr>banClient := Some (cl1\<lparr>conn := c2\<rparr>)\<rparr>, w2))
              else (Ret None, g\<lparr>banClient := Some cl1\<rparr>, emit [EvLog ''del lock fail''] w1))
       | (Panics p, cl1, w1) \<Rightarrow>
           DelNetLock L H fuel now sel key lockVal (g, w) =
             (Panics p, g\<lparr>banClient := Some cl1\<rparr>, w1)
       | (Stuck, cl1, w1) \<Rightarrow>
           DelNetLock L H fuel now sel key lockVal (g, w) =
             (Stuck, g\<lparr>banClient := Some cl1\<rparr>, w1)"
    by (simp add: DelNetLock_def GetServerData_def SetServerData_def ClientIO_SetVal_def Let_def
        split: prod.splits res.splits option.splits)
next
  assume "banServer g = None \<and> banClient g = None"
  then show "DelNetLock L H fuel now sel key lockVal (g, w) =
         (Ret (Some (Error (Some ErrRunTime) (Msg ''banClient not load''))), g, w)"
    by (simp add: DelNetLock_def GetServerData_def Let_def)
qed

theorem DelNetLock_paths_witness:
  "DelNetLock libs0 hooks_none 0 1000 TimedOut ''job'' 7 (globals_s, world0) =
     (Ret None, globals_s, emit [EvLog ''del lock fail''] world0)
   \<and> DelNetLock libs0 hooks_none 0 1000 TimedOut ''job'' 42 (globals_s, world0) =
     (Ret None, globals_s\<lparr>banServer := Some (server_lock\<lparr>Data := GoMap Map.empty\<rparr>)\<rparr>, world0)
   \<and> DelNetLock libs0 hooks_none 0 1000 (Received (VInt32 42)) ''job'' 7 (globals_c, world0) =
     (Ret None, globals_c\<lparr>banClient := Some (client0\<lparr>waits := GoMap [''lock_job'' \<mapsto> 0]\<rparr>)\<rparr>,
      world0\<lparr>trace := [EvLock, EvSockWrite 7 (PutUint32 2) None, EvSockWrite 7 [123, 125] None,
                        EvUnlock, EvMakeChan 0, EvSelect 0 120, EvLog ''del lock fail''],
             wix := 2, chans := 1\<rparr>)
   \<and> DelNetLock libs0 hooks_none 0 1000 (Received (VInt32 42)) ''job'' 42 (globals_c, world0) =
     (Ret None, globals_c\<lparr>banClient := Some (client0\<lparr>waits := GoMap [''lock_job'' \<mapsto> 0]\<rparr>)\<rparr>,
      world0\<lparr>trace := [EvLock, EvSockWrite 7 (PutUint32 2) None, EvSockWrite 7 [123, 125] None,
                        EvUnlock, EvMakeChan 0, EvSelect 0 120,
                        EvLock, EvSockWrite 7 (PutUint32 2) None, EvSockWrite 7 [123, 125] None,
                        EvUnlock],
             wix := 4, chans := 1\<rparr>)
   \<and> DelNetLock libs0 hooks_none 0 1000 TimedOut ''job'' 42
        (\<lparr>banServer = None, banClient = None\<rparr>, world0) =
     (Ret (Some (Error (Some ErrRunTime) (Msg ''banClient not load''))),
      \<lparr>banServer = None, banClient = None\<rparr>, world0)"
  using DelNetLock_paths [where g = "globals_s" and now = 1000 and key = "''job''" and L = libs0
        and H = hooks_none and fuel = 0 and sel = "TimedOut" and lockVal = 7 and w = world0]
    DelNetLock_paths [where g = "globals_s" and now = 1000 and key = "''job''" and L = libs0
        and H = hooks_none and fuel = 0 and sel = "TimedOut" and lockVal = 42 and w = world0]
    DelNetLock_paths [where g = "globals_c" and now = 1000 and key = "''job''" and L = libs0
        and H = hooks_none and fuel = 0 and sel = "Received (VInt32 42)" and lockVal = 7 and w = world0]
    DelNetLock_paths [where g = "globals_c" and now = 1000 and key = "''job''" and L = libs0
        and H = hooks_none and fuel = 0 and sel = "Received (VInt32 42)" and lockVal = 42 and w = world0]
    DelNetLock_paths [where g = "\<lparr>banServer = None, banClient = None\<rparr>" and now = 1000 and key = "''job''" and L = libs0
        and H = hooks_none and fuel = 0 and sel = "TimedOut" and lockVal = 42 and w = world0]
  by (simp add: globals_s_def globals_c_def server_lock_def client0_def conn7_def world0_def
      NewBanServer_def libs0_def hooks_none_def valInt_of_def GetVal_def
      ClientIO_GetVal_def WriteMsg_def Write_body_def sock_write_def emit_def compress_def
      readTimeout_def Let_def)

text \<open>
  C7 as stated fails. In the process that holds the server, with the string \<open>abc\<close>
  stored under the lock's key and released with the nonce 0, the stored value differs
  from the nonce, yet nothing is logged and the entry is removed: the string does not
  decode and \<open>valInt\<close> stays 0. On a client whose read times out, a release with the
  nonce 42 logs, returns no error and sends no \<open>onSetVal\<close>, whatever the server holds,
  the nonce 42 included.
\<close>

theorem DelNetLock_differing_value_released:
  "map_get (ServerIO.Data server_abc) ''lock_job'' = Some (VString ''abc'')
   \<and> VString ''abc'' \<noteq> VInt32 0
   \<and> DelNetLock libs0 hooks_none 0 1000 TimedOut ''job'' 0 (globals_abc, world0) =
     (Ret None, globals_abc\<lparr>banServer := Some (server_abc\<lparr>Data := GoMap Map.empty\<rparr>)\<rparr>, world0)
   \<and> DelNetLock libs0 hooks_none 0 1000 TimedOut ''job'' 42 (globals_c, world0) =
     (Ret None, globals_c,
      world0\<lparr>trace := [EvLock, EvSockWrite 7 (PutUint32 2) None, EvSockWrite 7 [123, 125] None,
                        EvUnlock, EvMakeChan 0, EvSelect 0 120, EvCloseChan 0,
                        EvLog ''del lock fail''],
             wix := 2, chans := 1\<rparr>)"
  by (simp add: globals_abc_def globals_c_def server_abc_def client0_def conn7_def world0_def
      NewBanServer_def libs0_def hooks_none_def valInt_of_def GetVal_def
      DelNetLock_def GetServerData_def SetServerData_def SetVal_def
      ClientIO_GetVal_def WriteMsg_def Write_body_def sock_write_def emit_def compress_def
      readTimeout_def Let_def)

end
